theory Spec2Isabelle
  imports Main "HOL-Library.Word"
begin

section \<open>Data model of \<open>ProtobufStreamClient\<close>\<close>

text \<open>
  Heap blocks are named by their address. The contents of the receive buffer are not
  modelled: only which block \<open>in_data_\<close> points to and how many bytes it holds.
\<close>

type_synonym ptr = nat

text \<open>
  \<open>boost::system::error_code\<close>: a numeric value; \<open>!err\<close> holds exactly when the value is
  zero, and a default-constructed \<open>error_code()\<close> has value zero.
\<close>

datatype error_code = ErrorCode (ec_value: int)

definition failed :: "error_code \<Rightarrow> bool" where
  "failed err = (ec_value err \<noteq> 0)"

definition no_error :: error_code where
  "no_error = ErrorCode 0"

text \<open>\<open>errc::make_error_code(errc::not_enough_memory)\<close>, the generic \<open>ENOMEM\<close>.\<close>

definition not_enough_memory :: error_code where
  "not_enough_memory = ErrorCode 12"

text \<open>
  \<open>frame_header_t\<close> is declared outside \<open>client.cpp\<close>; the code reads three fields of it,
  each kept in network byte order. A field is modelled by its bytes in memory order, so
  that \<open>ntohs\<close> and \<open>ntohl\<close> are the big-endian readings on every host.
\<close>

type_synonym u8 = "8 word"

record frame_header_t =
  component_id :: "u8 \<times> u8"
  msg_type :: "u8 \<times> u8"
  payload_size :: "u8 \<times> u8 \<times> u8 \<times> u8"

definition ntohs :: "u8 \<times> u8 \<Rightarrow> nat" where
  "ntohs f = (case f of (b0, b1) \<Rightarrow> unat b0 * 256 + unat b1)"

definition ntohl :: "u8 \<times> u8 \<times> u8 \<times> u8 \<Rightarrow> nat" where
  "ntohl f = (case f of (b0, b1, b2, b3) \<Rightarrow>
     ((unat b0 * 256 + unat b1) * 256 + unat b2) * 256 + unat b3)"

text \<open>
  \<open>QueueEntry\<close>: the encoded header and payload of one outgoing message. The two
  \<open>buffers\<close> are views into these fields and carry no information of their own.
\<close>

record queue_entry =
  frame_header :: frame_header_t
  serialized_message :: string

type_synonym endpoint_iterator = "nat list"

text \<open>
  Everything the client does to the outside is recorded, in program order, in a trace:
  the signals it fires, the asynchronous operations it hands to the io service, the
  socket calls, and the heap calls.
\<close>

datatype 'm event =
    Sig_connected
  | Sig_disconnected error_code
  | Sig_rcvd nat nat 'm
  | Async_resolve string nat
  | Async_connect endpoint_iterator
  | Async_read_header
  | Async_read_message ptr nat
  | Async_write queue_entry
  | Socket_shutdown
  | Socket_close
  | Realloc ptr nat
  | Delete_entry queue_entry
  | Run_asio

record 'm client =
  connected :: bool
  outbound_active :: bool
  in_data_size :: nat
  in_data :: ptr
  in_frame_header :: frame_header_t
  outbound_queue :: "queue_entry list"
  socket_is_open :: bool
  trace :: "'m event list"

definition emit :: "'m event list \<Rightarrow> 'm client \<Rightarrow> 'm client" where
  "emit evs s = s\<lparr>trace := trace s @ evs\<rparr>"

section \<open>Operations\<close>

text \<open>
  The constructor. \<open>p\<close> is what \<open>malloc(1024)\<close> returned. The member
  \<open>in_frame_header_\<close> is left uninitialised by the code; it is only read after a header
  read has filled it, and is zero here. The members \<open>connected_\<close>, \<open>outbound_active_\<close>,
  \<open>in_data_size_\<close>, \<open>in_data_\<close>, \<open>in_frame_header_\<close> and \<open>outbound_queue_\<close> are
  written without the final underscore, which an Isabelle name cannot end with.
\<close>

definition ProtobufStreamClient :: "ptr \<Rightarrow> 'm client" where
  "ProtobufStreamClient p =
     \<lparr>connected = False, outbound_active = False, in_data_size = 1024,
      in_data = p,
      in_frame_header = \<lparr>component_id = (0, 0), msg_type = (0, 0),
                           payload_size = (0, 0, 0, 0)\<rparr>,
      outbound_queue = [], socket_is_open = False, trace = []\<rparr>"

definition is_connected :: "'m client \<Rightarrow> bool" where
  "is_connected s = connected s"

text \<open>
  \<open>run_asio\<close> starts or recycles the io thread; only the call is recorded. It is the
  last statement of \<open>async_connect\<close> and of the issuing branch of \<open>send\<close>. The call need
  not return: it joins the previous thread while holding \<open>asio_mutex_\<close>, which a thread
  that has just been started is still waiting for in \<open>io_service_run\<close>. A client blocked
  there takes no further step, so its behaviour is an initial part of a run below, and
  what is proved of every run holds of it; nothing below says that a call returns.
\<close>

definition run_asio :: "'m client \<Rightarrow> 'm client" where
  "run_asio s = emit [Run_asio] s"

definition async_connect :: "string \<Rightarrow> nat \<Rightarrow> 'm client \<Rightarrow> 'm client" where
  "async_connect host port s = run_asio (emit [Async_resolve host port] s)"

text \<open>
  \<open>disconnect_nosig\<close>: \<open>shutdown\<close> reports into a local error code that is dropped, and
  \<open>close\<close> on a socket that is not open does nothing.
\<close>

definition disconnect_nosig :: "'m client \<Rightarrow> 'm client" where
  "disconnect_nosig s =
     (emit [Socket_shutdown, Socket_close] s)\<lparr>socket_is_open := False, connected := False\<rparr>"

definition disconnect :: "'m client \<Rightarrow> 'm client" where
  "disconnect s = emit [Sig_disconnected no_error] (disconnect_nosig s)"

definition start_recv :: "'m client \<Rightarrow> 'm client" where
  "start_recv s = emit [Async_read_header] s"

definition handle_resolve :: "error_code \<Rightarrow> endpoint_iterator \<Rightarrow> 'm client \<Rightarrow> 'm client" where
  "handle_resolve err endpoint_iterator s =
     (if \<not> failed err then emit [Async_connect endpoint_iterator] s
      else emit [Sig_disconnected err] (disconnect s))"

definition handle_connect :: "error_code \<Rightarrow> 'm client \<Rightarrow> 'm client" where
  "handle_connect err s =
     (if \<not> failed err then emit [Sig_connected] (start_recv (s\<lparr>connected := True\<rparr>))
      else emit [Sig_disconnected err] (disconnect s))"

text \<open>
  \<open>handle_read_header\<close>. \<open>realloc\<close> is the allocator: \<open>None\<close> is the null pointer it
  returns when it cannot allocate, leaving the old block as it was.
\<close>

definition handle_read_header ::
  "(ptr \<Rightarrow> nat \<Rightarrow> ptr option) \<Rightarrow> error_code \<Rightarrow> 'm client \<Rightarrow> 'm client" where
  "handle_read_header realloc error s =
     (if \<not> failed error then
        let to_read = ntohl (payload_size (in_frame_header s));
            s1 = (if to_read > in_data_size s then
                    (case realloc (in_data s) to_read of
                       Some new_data \<Rightarrow>
                         (emit [Realloc (in_data s) to_read] s)
                           \<lparr>in_data_size := to_read, in_data := new_data\<rparr>
                     | None \<Rightarrow>
                         emit [Realloc (in_data s) to_read,
                               Sig_disconnected not_enough_memory] s)
                  else s)
        in emit [Async_read_message (in_data s1) to_read] s1
      else s)"

text \<open>
  \<open>handle_read_message\<close>. \<open>deserialize\<close> is the message register's decoder, applied to
  the stored header and the buffer.
\<close>

definition handle_read_message ::
  "(frame_header_t \<Rightarrow> ptr \<Rightarrow> 'm) \<Rightarrow> error_code \<Rightarrow> 'm client \<Rightarrow> 'm client" where
  "handle_read_message deserialize error s =
     (if \<not> failed error then
        let m = deserialize (in_frame_header s) (in_data s);
            comp_id = ntohs (component_id (in_frame_header s));
            msg_ty = ntohs (msg_type (in_frame_header s))
        in start_recv (emit [Sig_rcvd comp_id msg_ty m] s)
      else s)"

definition handle_write :: "error_code \<Rightarrow> queue_entry \<Rightarrow> 'm client \<Rightarrow> 'm client" where
  "handle_write error entry s =
     (let s0 = emit [Delete_entry entry] s in
      if \<not> failed error then
        (case outbound_queue s0 of
           e # q \<Rightarrow> emit [Async_write e] (s0\<lparr>outbound_queue := q\<rparr>)
         | [] \<Rightarrow> s0\<lparr>outbound_active := False\<rparr>)
      else emit [Sig_disconnected error] s0)"

text \<open>
  \<open>send\<close>. \<open>serialize\<close> is the message register's encoder; it fills the header and the
  payload of the new entry.
\<close>

definition new_entry ::
  "(nat \<Rightarrow> nat \<Rightarrow> 'm \<Rightarrow> frame_header_t \<times> string) \<Rightarrow> nat \<Rightarrow> nat \<Rightarrow> 'm \<Rightarrow> queue_entry" where
  "new_entry serialize comp_id msg_ty m =
     (case serialize comp_id msg_ty m of
        (h, bytes) \<Rightarrow> \<lparr>frame_header = h, serialized_message = bytes\<rparr>)"

definition send ::
  "(nat \<Rightarrow> nat \<Rightarrow> 'm \<Rightarrow> frame_header_t \<times> string) \<Rightarrow> nat \<Rightarrow> nat \<Rightarrow> 'm \<Rightarrow> 'm client \<Rightarrow> 'm client" where
  "send serialize comp_id msg_ty m s =
     (let entry = new_entry serialize comp_id msg_ty m in
      if outbound_active s then s\<lparr>outbound_queue := outbound_queue s @ [entry]\<rparr>
      else run_asio (emit [Async_write entry] (s\<lparr>outbound_active := True\<rparr>)))"

section \<open>Runs of the client\<close>

text \<open>
  The write handed to the io service and not yet completed: \<open>async_write\<close> puts an entry
  in flight, and its completion handler deletes that entry first of all.
\<close>

definition in_flight_step :: "queue_entry option \<Rightarrow> 'm event \<Rightarrow> queue_entry option" where
  "in_flight_step p ev = (case ev of Async_write e \<Rightarrow> Some e | Delete_entry e \<Rightarrow> None | _ \<Rightarrow> p)"

definition in_flight :: "'m event list \<Rightarrow> queue_entry option" where
  "in_flight tr = foldl in_flight_step None tr"

fun writes_issued :: "'m event list \<Rightarrow> queue_entry list" where
  "writes_issued [] = []"
| "writes_issued (Async_write e # tr) = e # writes_issued tr"
| "writes_issued (_ # tr) = writes_issued tr"

fun disconnects_fired :: "'m event list \<Rightarrow> error_code list" where
  "disconnects_fired [] = []"
| "disconnects_fired (Sig_disconnected err # tr) = err # disconnects_fired tr"
| "disconnects_fired (_ # tr) = disconnects_fired tr"

fun reallocs_called :: "'m event list \<Rightarrow> (ptr \<times> nat) list" where
  "reallocs_called [] = []"
| "reallocs_called (Realloc p n # tr) = (p, n) # reallocs_called tr"
| "reallocs_called (_ # tr) = reallocs_called tr"

text \<open>
  What can happen to a client: a call of its public interface by the application, or a
  completion delivered by the io service. The handlers run one at a time on the io
  thread, and \<open>send\<close> and \<open>handle_write\<close> hold \<open>outbound_mutex_\<close> across their test and
  update of the queue and the flag, so each call and each completion is one step. A
  header read completes with the header bytes it stored and with the allocator the
  handler will find; a connect that succeeds leaves the socket open; a write completion
  is delivered for the entry in flight, and there is none to deliver when no write is
  in flight.
\<close>

datatype 'm action =
    Call_async_connect string nat
  | Call_disconnect
  | Call_send nat nat 'm
  | Resolve_done error_code endpoint_iterator
  | Connect_done error_code
  | Read_header_done error_code frame_header_t "ptr \<Rightarrow> nat \<Rightarrow> ptr option"
  | Read_message_done error_code
  | Write_done error_code

record 'm codec =
  serialize :: "nat \<Rightarrow> nat \<Rightarrow> 'm \<Rightarrow> frame_header_t \<times> string"
  deserialize :: "frame_header_t \<Rightarrow> ptr \<Rightarrow> 'm"

fun step :: "'m codec \<Rightarrow> 'm action \<Rightarrow> 'm client \<Rightarrow> 'm client" where
  "step c (Call_async_connect host port) s = async_connect host port s"
| "step c Call_disconnect s = disconnect s"
| "step c (Call_send comp_id msg_ty m) s = send (serialize c) comp_id msg_ty m s"
| "step c (Resolve_done err it) s = handle_resolve err it s"
| "step c (Connect_done err) s =
     handle_connect err (if failed err then s else s\<lparr>socket_is_open := True\<rparr>)"
| "step c (Read_header_done err h realloc) s =
     handle_read_header realloc err (s\<lparr>in_frame_header := h\<rparr>)"
| "step c (Read_message_done err) s = handle_read_message (deserialize c) err s"
| "step c (Write_done err) s =
     (case in_flight (trace s) of None \<Rightarrow> s | Some e \<Rightarrow> handle_write err e s)"

fun run :: "'m codec \<Rightarrow> 'm action list \<Rightarrow> 'm client \<Rightarrow> 'm client" where
  "run c [] s = s"
| "run c (st # sts) s = run c sts (step c st s)"

fun sent :: "'m codec \<Rightarrow> 'm action list \<Rightarrow> queue_entry list" where
  "sent c [] = []"
| "sent c (Call_send comp_id msg_ty m # sts) =
     new_entry (serialize c) comp_id msg_ty m # sent c sts"
| "sent c (_ # sts) = sent c sts"

text \<open>A run in which every write completion that is delivered reports success.\<close>

fun write_error_free :: "'m action list \<Rightarrow> bool" where
  "write_error_free [] = True"
| "write_error_free (Write_done err # sts) = (\<not> failed err \<and> write_error_free sts)"
| "write_error_free (_ # sts) = write_error_free sts"

section \<open>Concrete inputs\<close>

text \<open>
  A codec, two allocators, a header and a connected client, on which the theorems below
  are evaluated. The codec writes the header the way the wire format has it: each field
  big-endian. The header \<open>big_header\<close> announces a payload of 2048 bytes, twice the
  initial capacity of the receive buffer.
\<close>

definition htons :: "nat \<Rightarrow> u8 \<times> u8" where
  "htons n = (of_nat (n div 256), of_nat n)"

definition htonl :: "nat \<Rightarrow> u8 \<times> u8 \<times> u8 \<times> u8" where
  "htonl n = (of_nat (n div 16777216), of_nat (n div 65536), of_nat (n div 256), of_nat n)"

definition example_codec :: "string codec" where
  "example_codec =
     \<lparr>serialize = (\<lambda>comp_id msg_ty m.
        (\<lparr>component_id = htons comp_id, msg_type = htons msg_ty,
          payload_size = htonl (length m)\<rparr>, m)),
      deserialize = (\<lambda>h p. ''decoded'')\<rparr>"

definition failing_realloc :: "ptr \<Rightarrow> nat \<Rightarrow> ptr option" where
  "failing_realloc p n = None"

definition working_realloc :: "ptr \<Rightarrow> nat \<Rightarrow> ptr option" where
  "working_realloc p n = Some (p + 8192)"

definition big_header :: frame_header_t where
  "big_header = \<lparr>component_id = (0, 1), msg_type = (0, 2), payload_size = (0, 0, 8, 0)\<rparr>"

definition small_header :: frame_header_t where
  "small_header = \<lparr>component_id = (0, 1), msg_type = (0, 3), payload_size = (0, 0, 0, 5)\<rparr>"

definition connected_client :: "string client" where
  "connected_client =
     run example_codec
       [Call_async_connect ''refbox'' 4444, Resolve_done no_error [0], Connect_done no_error]
       (ProtobufStreamClient 4096)"

section \<open>Basic facts\<close>

lemma trace_emit: "trace (emit evs s) = trace s @ evs"
  by (simp add: emit_def)

lemma disconnects_fired_append:
  "disconnects_fired (xs @ ys) = disconnects_fired xs @ disconnects_fired ys"
  by (induction xs rule: disconnects_fired.induct) simp_all

lemma writes_issued_append:
  "writes_issued (xs @ ys) = writes_issued xs @ writes_issued ys"
  by (induction xs rule: writes_issued.induct) simp_all

lemmas op_defs = emit_def run_asio_def async_connect_def disconnect_nosig_def disconnect_def
  start_recv_def handle_resolve_def handle_connect_def handle_read_header_def
  handle_read_message_def handle_write_def send_def

lemma in_flight_append:
  "in_flight (xs @ ys) = foldl in_flight_step (in_flight xs) ys"
  by (simp add: in_flight_def)

lemma in_data_size_step: "in_data_size s \<le> in_data_size (step c a s)"
  by (cases a) (auto simp: op_defs Let_def split: option.splits list.splits)

lemma in_data_size_run: "in_data_size s \<le> in_data_size (run c sts s)"
proof (induction sts arbitrary: s)
  case Nil
  show ?case by simp
next
  case (Cons a sts)
  have "in_data_size s \<le> in_data_size (step c a s)" by (rule in_data_size_step)
  also have "\<dots> \<le> in_data_size (run c sts (step c a s))" by (rule Cons.IH)
  finally show ?case by simp
qed

lemma step_queue:
  assumes "\<not> outbound_active s \<longrightarrow> outbound_queue s = []"
  shows "(\<not> outbound_active (step c a s) \<longrightarrow> outbound_queue (step c a s) = [])
       \<and> writes_issued (trace (step c a s)) @ outbound_queue (step c a s)
         = writes_issued (trace s) @ outbound_queue s @ sent c [a]"
  using assms
  by (cases a) (auto simp: op_defs Let_def writes_issued_append split: option.splits list.splits)

lemma run_queue:
  assumes "\<not> outbound_active s \<longrightarrow> outbound_queue s = []"
  shows "(\<not> outbound_active (run c sts s) \<longrightarrow> outbound_queue (run c sts s) = [])
       \<and> writes_issued (trace (run c sts s)) @ outbound_queue (run c sts s)
         = writes_issued (trace s) @ outbound_queue s @ sent c sts"
  using assms
proof (induction sts arbitrary: s)
  case Nil
  then show ?case by simp
next
  case (Cons a sts)
  note st = step_queue [OF Cons.prems, of c a]
  from st have inv: "\<not> outbound_active (step c a s) \<longrightarrow> outbound_queue (step c a s) = []"
    by blast
  have sent_cons: "sent c (a # sts) = sent c [a] @ sent c sts"
    by (cases a) simp_all
  from Cons.IH [OF inv] st show ?case
    by (simp add: sent_cons)
qed

lemma step_in_flight_active:
  assumes "in_flight (trace s) \<noteq> None \<longrightarrow> outbound_active s"
  shows "in_flight (trace (step c a s)) \<noteq> None \<longrightarrow> outbound_active (step c a s)"
  using assms
  by (cases a)
     (auto simp: op_defs Let_def in_flight_append in_flight_step_def
           split: option.splits list.splits)

lemma run_in_flight_active:
  assumes "in_flight (trace s) \<noteq> None \<longrightarrow> outbound_active s"
  shows "in_flight (trace (run c sts s)) \<noteq> None \<longrightarrow> outbound_active (run c sts s)"
  using assms
proof (induction sts arbitrary: s)
  case Nil
  then show ?case by simp
next
  case (Cons a sts)
  from Cons.IH [OF step_in_flight_active [OF Cons.prems]] show ?case by simp
qed

lemma step_wedged:
  assumes "outbound_active s" and "in_flight (trace s) = None"
  shows "outbound_active (step c a s) \<and> in_flight (trace (step c a s)) = None
       \<and> writes_issued (trace (step c a s)) = writes_issued (trace s)
       \<and> outbound_queue (step c a s) = outbound_queue s @ sent c [a]"
  using assms
  by (cases a)
     (auto simp: op_defs Let_def in_flight_append in_flight_step_def writes_issued_append
           split: option.splits list.splits)

lemma run_wedged:
  assumes "outbound_active s" and "in_flight (trace s) = None"
  shows "outbound_active (run c sts s) \<and> in_flight (trace (run c sts s)) = None
       \<and> writes_issued (trace (run c sts s)) = writes_issued (trace s)
       \<and> outbound_queue (run c sts s) = outbound_queue s @ sent c sts"
  using assms
proof (induction sts arbitrary: s)
  case Nil
  then show ?case by simp
next
  case (Cons a sts)
  note st = step_wedged [OF Cons.prems, of c a]
  have sent_cons: "sent c (a # sts) = sent c [a] @ sent c sts"
    by (cases a) simp_all
  from st have a1: "outbound_active (step c a s)" and a2: "in_flight (trace (step c a s)) = None"
    by blast+
  from Cons.IH [OF a1 a2] st show ?case
    by (simp add: sent_cons)
qed

lemma run_append: "run c (xs @ ys) s = run c ys (run c xs s)"
  by (induction xs arbitrary: s) simp_all

lemma reallocs_called_append:
  "reallocs_called (xs @ ys) = reallocs_called xs @ reallocs_called ys"
  by (induction xs rule: reallocs_called.induct) simp_all

lemma init_queue_inv:
  "\<not> outbound_active (ProtobufStreamClient p) \<longrightarrow> outbound_queue (ProtobufStreamClient p) = []"
  by (simp add: ProtobufStreamClient_def)

lemma init_in_flight_inv:
  "in_flight (trace (ProtobufStreamClient p)) \<noteq> None \<longrightarrow> outbound_active (ProtobufStreamClient p)"
  by (simp add: ProtobufStreamClient_def in_flight_def)

lemma step_flag_in_flight:
  assumes "outbound_active s = (in_flight (trace s) \<noteq> None)"
    and "write_error_free [a]"
  shows "outbound_active (step c a s) = (in_flight (trace (step c a s)) \<noteq> None)"
  using assms
  by (cases a)
     (auto simp: op_defs Let_def in_flight_append in_flight_step_def
           split: option.splits list.splits)

lemma write_error_free_Cons:
  "write_error_free (a # sts) = (write_error_free [a] \<and> write_error_free sts)"
  by (cases a) simp_all

lemma run_flag_in_flight:
  assumes "outbound_active s = (in_flight (trace s) \<noteq> None)"
    and "write_error_free sts"
  shows "outbound_active (run c sts s) = (in_flight (trace (run c sts s)) \<noteq> None)"
  using assms
proof (induction sts arbitrary: s)
  case Nil
  then show ?case by simp
next
  case (Cons a sts)
  from Cons.prems(2) have a: "write_error_free [a]" and r: "write_error_free sts"
    using write_error_free_Cons [of a sts] by blast+
  from Cons.IH [OF step_flag_in_flight [OF Cons.prems(1) a] r] show ?case by simp
qed

lemma init_flag_in_flight:
  "outbound_active (ProtobufStreamClient p) = (in_flight (trace (ProtobufStreamClient p)) \<noteq> None)"
  by (simp add: ProtobufStreamClient_def in_flight_def)

lemma connected_client_eq:
  "connected_client =
     \<lparr>connected = True, outbound_active = False, in_data_size = 1024, in_data = 4096,
      in_frame_header = \<lparr>component_id = (0, 0), msg_type = (0, 0),
                          payload_size = (0, 0, 0, 0)\<rparr>,
      outbound_queue = [], socket_is_open = True,
      trace = [Async_resolve ''refbox'' 4444, Run_asio, Async_connect [0],
               Async_read_header, Sig_connected]\<rparr>"
  by (simp add: connected_client_def ProtobufStreamClient_def op_defs failed_def no_error_def)

lemma ntohl_big_header: "ntohl (payload_size big_header) = 2048"
  by (simp add: big_header_def ntohl_def)

lemma ntohl_small_header: "ntohl (payload_size small_header) = 5"
  by (simp add: small_header_def ntohl_def)

section \<open>Receiving\<close>

text \<open>
  C1 (not met by the code). Required: when the announced payload is larger
  than the receive buffer and the buffer cannot be grown, the cycle is aborted, no
  payload read is issued and the client becomes disconnected. The code, on a connected
  client with the initial 1024-byte buffer, a header announcing 2048 bytes and an
  allocator that returns null: it fires \<open>disconnected(not_enough_memory)\<close> and then goes
  on to issue the payload read of 2048 bytes into the old block, and \<open>is_connected()\<close>
  stays true.
\<close>

theorem realloc_failure_reads_into_old_buffer:
  "is_connected connected_client
   \<and> in_data_size connected_client = 1024
   \<and> ntohl (payload_size big_header) = 2048
   \<and> failing_realloc (in_data connected_client) 2048 = None
   \<and> step example_codec (Read_header_done no_error big_header failing_realloc) connected_client
     = connected_client
         \<lparr>in_frame_header := big_header,
          trace := trace connected_client
                   @ [Realloc 4096 2048, Sig_disconnected not_enough_memory,
                      Async_read_message 4096 2048]\<rparr>
   \<and> is_connected
       (step example_codec (Read_header_done no_error big_header failing_realloc)
          connected_client)"
  by (simp add: connected_client_eq ntohl_big_header failing_realloc_def is_connected_def
      handle_read_header_def emit_def failed_def no_error_def Let_def)

text \<open>
  C2 (not met by the code). Required: a read error in either stage makes
  the client disconnected and fires \<open>disconnected(error)\<close>. The code, on a connected
  client and an end-of-file error: both \<open>handle_read_header\<close> and \<open>handle_read_message\<close>
  return the client as it was, still connected, with no notification fired. The two
  stages do agree, and neither issues another read.
\<close>

theorem read_error_is_silent:
  "failed (ErrorCode 2)
   \<and> is_connected connected_client
   \<and> handle_read_header working_realloc (ErrorCode 2) connected_client = connected_client
   \<and> handle_read_message (deserialize example_codec) (ErrorCode 2) connected_client
     = connected_client
   \<and> disconnects_fired (trace connected_client) = []"
  by (simp add: connected_client_eq is_connected_def handle_read_header_def
      handle_read_message_def failed_def)

text \<open>
  C5 (amended). The capacity never decreases, whatever happens to the client and in
  whatever order, so a later, smaller payload never shrinks it. After
  \<open>handle_read_header\<close> has processed a successfully read header announcing \<open>N\<close> bytes,
  the capacity is at least \<open>N\<close>, and exactly \<open>N\<close> when \<open>N\<close> exceeded it, provided that the
  reallocation, where one is needed, succeeds.
\<close>

theorem capacity_monotone:
  "in_data_size s \<le> in_data_size (run c sts s)
   \<and> in_data_size s \<le> in_data_size (handle_read_header realloc error s)
   \<and> (\<not> failed error \<longrightarrow>
        (in_data_size s < ntohl (payload_size (in_frame_header s)) \<longrightarrow>
           realloc (in_data s) (ntohl (payload_size (in_frame_header s))) \<noteq> None) \<longrightarrow>
        ntohl (payload_size (in_frame_header s))
          \<le> in_data_size (handle_read_header realloc error s))
   \<and> (\<not> failed error \<longrightarrow>
        in_data_size s < ntohl (payload_size (in_frame_header s)) \<longrightarrow>
        realloc (in_data s) (ntohl (payload_size (in_frame_header s))) \<noteq> None \<longrightarrow>
        in_data_size (handle_read_header realloc error s)
          = ntohl (payload_size (in_frame_header s)))"
proof (intro conjI impI)
  show "in_data_size s \<le> in_data_size (run c sts s)"
    by (rule in_data_size_run)
  show "in_data_size s \<le> in_data_size (handle_read_header realloc error s)"
    by (auto simp: handle_read_header_def emit_def Let_def split: option.splits)
  show "ntohl (payload_size (in_frame_header s))
          \<le> in_data_size (handle_read_header realloc error s)"
    if "\<not> failed error"
      and "in_data_size s < ntohl (payload_size (in_frame_header s)) \<longrightarrow>
           realloc (in_data s) (ntohl (payload_size (in_frame_header s))) \<noteq> None"
    using that
    by (auto simp: handle_read_header_def emit_def Let_def split: option.splits)
  show "in_data_size (handle_read_header realloc error s)
          = ntohl (payload_size (in_frame_header s))"
    if "\<not> failed error"
      and "in_data_size s < ntohl (payload_size (in_frame_header s))"
      and "realloc (in_data s) (ntohl (payload_size (in_frame_header s))) \<noteq> None"
    using that
    by (auto simp: handle_read_header_def emit_def Let_def split: option.splits)
qed

theorem capacity_monotone_witness:
  "\<not> failed no_error
   \<and> in_data_size (connected_client\<lparr>in_frame_header := big_header\<rparr>) = 1024
   \<and> ntohl (payload_size (in_frame_header (connected_client\<lparr>in_frame_header := big_header\<rparr>)))
     = 2048
   \<and> working_realloc (in_data (connected_client\<lparr>in_frame_header := big_header\<rparr>)) 2048
     \<noteq> None
   \<and> in_data_size
       (handle_read_header working_realloc no_error
          (connected_client\<lparr>in_frame_header := big_header\<rparr>))
     = 2048
   \<and> 1024 \<le> in_data_size
       (run example_codec
          [Read_header_done no_error big_header working_realloc, Read_message_done no_error,
           Read_header_done no_error small_header working_realloc, Read_message_done no_error]
          (connected_client\<lparr>in_frame_header := big_header\<rparr>))
   \<and> in_data_size
       (run example_codec
          [Read_header_done no_error big_header working_realloc, Read_message_done no_error,
           Read_header_done no_error small_header working_realloc, Read_message_done no_error]
          connected_client)
     = 2048"
proof -
  have nf: "\<not> failed no_error"
    by (simp add: failed_def no_error_def)
  have sz: "in_data_size (connected_client\<lparr>in_frame_header := big_header\<rparr>) = 1024"
    by (simp add: connected_client_eq)
  have n: "ntohl (payload_size (in_frame_header
             (connected_client\<lparr>in_frame_header := big_header\<rparr>))) = 2048"
    by (simp add: ntohl_big_header)
  have r: "working_realloc (in_data (connected_client\<lparr>in_frame_header := big_header\<rparr>)) 2048
           \<noteq> None"
    by (simp add: working_realloc_def)
  have e: "in_data_size
       (run example_codec
          [Read_header_done no_error big_header working_realloc, Read_message_done no_error,
           Read_header_done no_error small_header working_realloc, Read_message_done no_error]
          connected_client)
     = 2048"
    by (simp add: connected_client_eq ntohl_big_header ntohl_small_header working_realloc_def
        handle_read_header_def handle_read_message_def start_recv_def emit_def failed_def
        no_error_def Let_def)
  from capacity_monotone
         [of "connected_client\<lparr>in_frame_header := big_header\<rparr>" example_codec
            "[Read_header_done no_error big_header working_realloc, Read_message_done no_error,
              Read_header_done no_error small_header working_realloc,
              Read_message_done no_error]"
            working_realloc no_error]
       nf sz n r e
  show ?thesis by simp
qed

text \<open>
  C5 as stated fails where the reallocation fails: the header announces 2048 bytes and
  the capacity is still 1024 after \<open>handle_read_header\<close>.
\<close>

theorem capacity_below_payload_counterexample:
  "\<not> failed no_error
   \<and> ntohl (payload_size big_header) = 2048
   \<and> in_data_size connected_client < 2048
   \<and> \<not> (2048 \<le> in_data_size
            (step example_codec (Read_header_done no_error big_header failing_realloc)
               connected_client))"
  by (simp add: connected_client_eq ntohl_big_header failing_realloc_def
      handle_read_header_def emit_def failed_def no_error_def Let_def)

text \<open>
  C10. When the payload size decoded by \<open>handle_read_header\<close> is at most the current
  capacity, the buffer pointer and the recorded capacity are unchanged and \<open>realloc\<close> is
  not called; on a successful read the only effect is the payload read issued into
  the buffer the client already had.
\<close>

theorem handle_read_header_reuses_buffer:
  "ntohl (payload_size (in_frame_header s)) \<le> in_data_size s \<Longrightarrow>
     in_data (handle_read_header realloc error s) = in_data s
     \<and> in_data_size (handle_read_header realloc error s) = in_data_size s
     \<and> reallocs_called (trace (handle_read_header realloc error s))
       = reallocs_called (trace s)
     \<and> (\<not> failed error \<longrightarrow>
          handle_read_header realloc error s
            = s\<lparr>trace := trace s
                 @ [Async_read_message (in_data s)
                      (ntohl (payload_size (in_frame_header s)))]\<rparr>)"
  by (simp add: handle_read_header_def emit_def Let_def reallocs_called_append)

theorem handle_read_header_reuses_buffer_witness:
  "ntohl (payload_size (in_frame_header (connected_client\<lparr>in_frame_header := small_header\<rparr>)))
     \<le> in_data_size (connected_client\<lparr>in_frame_header := small_header\<rparr>)
   \<and> \<not> failed no_error
   \<and> handle_read_header working_realloc no_error
       (connected_client\<lparr>in_frame_header := small_header\<rparr>)
     = connected_client
         \<lparr>in_frame_header := small_header,
          trace := trace connected_client @ [Async_read_message 4096 5]\<rparr>"
proof -
  have le: "ntohl (payload_size (in_frame_header
              (connected_client\<lparr>in_frame_header := small_header\<rparr>)))
            \<le> in_data_size (connected_client\<lparr>in_frame_header := small_header\<rparr>)"
    by (simp add: connected_client_eq ntohl_small_header)
  have nf: "\<not> failed no_error"
    by (simp add: failed_def no_error_def)
  from handle_read_header_reuses_buffer [OF le, of working_realloc no_error] le nf
  show ?thesis by (simp add: connected_client_eq ntohl_small_header)
qed

section \<open>Failures and notifications\<close>

text \<open>
  C3 (not met by the code). Required: each transport failure fires exactly
  one \<open>disconnected\<close> notification. The code: a failed resolution fires two, the first
  from \<open>disconnect()\<close> with the no-error code and the second with the error; a failed
  connect does the same; a failed header read fires none.
\<close>

theorem resolve_or_connect_failure_fires_twice:
  "disconnects_fired
     (trace (run example_codec
        [Call_async_connect ''refbox'' 4444, Resolve_done (ErrorCode 1) []]
        (ProtobufStreamClient 4096)))
   = [no_error, ErrorCode 1]
   \<and> disconnects_fired
     (trace (run example_codec
        [Call_async_connect ''refbox'' 4444, Resolve_done no_error [0],
         Connect_done (ErrorCode 111)]
        (ProtobufStreamClient 4096)))
   = [no_error, ErrorCode 111]
   \<and> disconnects_fired
     (trace (step example_codec (Read_header_done (ErrorCode 2) small_header working_realloc)
        connected_client))
   = []"
  by (simp add: connected_client_eq ProtobufStreamClient_def op_defs failed_def no_error_def)

text \<open>
  C8. \<open>disconnect()\<close> can be called in every state, also with the socket closed and
  the client already disconnected: each call fires exactly one more
  \<open>disconnected\<close> notification, carrying the no-error code, and \<open>is_connected()\<close> is
  false after it. Two calls in a row therefore fire two notifications, and
  \<open>is_connected()\<close> is false after the first and after the second.
\<close>

theorem disconnect_idempotent:
  "disconnects_fired (trace (disconnect s)) = disconnects_fired (trace s) @ [no_error]
   \<and> \<not> is_connected (disconnect s)
   \<and> disconnects_fired (trace (disconnect (disconnect s)))
       = disconnects_fired (trace s) @ [no_error, no_error]
   \<and> \<not> is_connected (disconnect (disconnect s))
   \<and> \<not> failed no_error"
  by (simp add: disconnect_def disconnect_nosig_def emit_def is_connected_def
      disconnects_fired_append failed_def no_error_def)

section \<open>Sending\<close>

text \<open>
  C4 (amended). When a write completes with an error, \<open>handle_write\<close> deletes the
  written entry, fires \<open>disconnected(error)\<close> once and issues no further write; the
  entries still queued are neither written nor removed: the outbound queue and the
  in-flight flag are left as they were.
\<close>

theorem handle_write_error_stops_draining:
  "failed error \<Longrightarrow>
     handle_write error entry s
       = s\<lparr>trace := trace s @ [Delete_entry entry, Sig_disconnected error]\<rparr>
     \<and> disconnects_fired (trace (handle_write error entry s))
       = disconnects_fired (trace s) @ [error]
     \<and> writes_issued (trace (handle_write error entry s)) = writes_issued (trace s)
     \<and> outbound_queue (handle_write error entry s) = outbound_queue s
     \<and> outbound_active (handle_write error entry s) = outbound_active s"
  by (simp add: handle_write_def emit_def Let_def disconnects_fired_append
      writes_issued_append)

theorem handle_write_error_stops_draining_witness:
  "failed (ErrorCode 32)
   \<and> outbound_queue
       (handle_write (ErrorCode 32) (new_entry (serialize example_codec) 1 2 ''A'')
          (run example_codec [Call_send 1 2 ''A'', Call_send 1 2 ''B''] connected_client))
     = [new_entry (serialize example_codec) 1 2 ''B'']
   \<and> writes_issued
       (trace (handle_write (ErrorCode 32) (new_entry (serialize example_codec) 1 2 ''A'')
          (run example_codec [Call_send 1 2 ''A'', Call_send 1 2 ''B''] connected_client)))
     = [new_entry (serialize example_codec) 1 2 ''A'']
   \<and> disconnects_fired
       (trace (handle_write (ErrorCode 32) (new_entry (serialize example_codec) 1 2 ''A'')
          (run example_codec [Call_send 1 2 ''A'', Call_send 1 2 ''B''] connected_client)))
     = [ErrorCode 32]"
proof -
  have f: "failed (ErrorCode 32)"
    by (simp add: failed_def)
  have q: "outbound_queue
             (run example_codec [Call_send 1 2 ''A'', Call_send 1 2 ''B''] connected_client)
           = [new_entry (serialize example_codec) 1 2 ''B'']"
    by (simp add: connected_client_eq send_def run_asio_def emit_def Let_def)
  have w: "writes_issued (trace
             (run example_codec [Call_send 1 2 ''A'', Call_send 1 2 ''B''] connected_client))
           = [new_entry (serialize example_codec) 1 2 ''A'']"
    by (simp add: connected_client_eq send_def run_asio_def emit_def Let_def)
  have d: "disconnects_fired (trace
             (run example_codec [Call_send 1 2 ''A'', Call_send 1 2 ''B''] connected_client))
           = []"
    by (simp add: connected_client_eq send_def run_asio_def emit_def Let_def)
  from handle_write_error_stops_draining
         [OF f, of "new_entry (serialize example_codec) 1 2 ''A''"
            "run example_codec [Call_send 1 2 ''A'', Call_send 1 2 ''B''] connected_client"]
       f q w d
  show ?thesis by (simp add: writes_issued_append disconnects_fired_append)
qed

text \<open>
  C4 as stated fails on the queue: with \<open>A\<close> in flight and \<open>B\<close> queued, a write error
  leaves \<open>B\<close> in the outbound queue.
\<close>

theorem write_error_keeps_queue_counterexample:
  "failed (ErrorCode 32)
   \<and> outbound_queue
       (run example_codec
          [Call_send 1 2 ''A'', Call_send 1 2 ''B'', Write_done (ErrorCode 32)]
          connected_client)
     = [new_entry (serialize example_codec) 1 2 ''B'']
   \<and> outbound_queue
       (run example_codec
          [Call_send 1 2 ''A'', Call_send 1 2 ''B'', Write_done (ErrorCode 32)]
          connected_client)
     \<noteq> []"
  by (simp add: connected_client_eq op_defs failed_def Let_def in_flight_def in_flight_step_def)

text \<open>
  C6 (amended). \<open>send\<close> tests the in-flight flag \<open>outbound_active_\<close>: when the flag is
  clear it issues the write of its entry at once and sets the flag, and when the flag
  is set it appends the entry to the tail of the queue. In every run of a new client,
  whatever completions and other events come between the sends, the writes issued so
  far followed by the entries still queued are the sent entries in the order of the
  \<open>send\<close> calls; once the flag is clear, the writes issued are exactly the sent entries,
  in that order. As long as no write has completed with an error, the flag is set
  exactly when a write is in flight.
\<close>

theorem send_order:
  "send ser comp_id msg_ty m s
     = (if outbound_active s
        then s\<lparr>outbound_queue := outbound_queue s @ [new_entry ser comp_id msg_ty m]\<rparr>
        else s\<lparr>outbound_active := True,
               trace := trace s @ [Async_write (new_entry ser comp_id msg_ty m), Run_asio]\<rparr>)
   \<and> writes_issued (trace (run c sts (ProtobufStreamClient p)))
       @ outbound_queue (run c sts (ProtobufStreamClient p))
     = sent c sts
   \<and> (\<not> outbound_active (run c sts (ProtobufStreamClient p)) \<longrightarrow>
        writes_issued (trace (run c sts (ProtobufStreamClient p))) = sent c sts)
   \<and> (write_error_free sts \<longrightarrow>
        outbound_active (run c sts (ProtobufStreamClient p))
          = (in_flight (trace (run c sts (ProtobufStreamClient p))) \<noteq> None))"
proof -
  have a: "send ser comp_id msg_ty m s
     = (if outbound_active s
        then s\<lparr>outbound_queue := outbound_queue s @ [new_entry ser comp_id msg_ty m]\<rparr>
        else s\<lparr>outbound_active := True,
               trace := trace s @ [Async_write (new_entry ser comp_id msg_ty m), Run_asio]\<rparr>)"
    by (simp add: send_def run_asio_def emit_def Let_def)
  note r = run_queue [OF init_queue_inv, where c = c and sts = sts and p1 = p]
  from r have b: "writes_issued (trace (run c sts (ProtobufStreamClient p)))
       @ outbound_queue (run c sts (ProtobufStreamClient p))
     = sent c sts"
    by (simp add: ProtobufStreamClient_def)
  from r b have c: "\<not> outbound_active (run c sts (ProtobufStreamClient p)) \<longrightarrow>
        writes_issued (trace (run c sts (ProtobufStreamClient p))) = sent c sts"
    by auto
  have d: "write_error_free sts \<longrightarrow>
        outbound_active (run c sts (ProtobufStreamClient p))
          = (in_flight (trace (run c sts (ProtobufStreamClient p))) \<noteq> None)"
    using run_flag_in_flight [OF init_flag_in_flight] by blast
  from a b c d show ?thesis by blast
qed

theorem send_order_witness:
  "write_error_free
       [Call_send 1 2 ''A'', Call_send 1 2 ''B'', Write_done no_error, Call_send 1 3 ''C'',
        Write_done no_error, Write_done no_error :: string action]
   \<and> \<not> outbound_active
       (run example_codec
          [Call_send 1 2 ''A'', Call_send 1 2 ''B'', Write_done no_error, Call_send 1 3 ''C'',
           Write_done no_error, Write_done no_error]
          (ProtobufStreamClient 4096))
   \<and> in_flight (trace
       (run example_codec
          [Call_send 1 2 ''A'', Call_send 1 2 ''B'', Write_done no_error, Call_send 1 3 ''C'',
           Write_done no_error, Write_done no_error]
          (ProtobufStreamClient 4096)))
     = None
   \<and> writes_issued (trace
       (run example_codec
          [Call_send 1 2 ''A'', Call_send 1 2 ''B'', Write_done no_error, Call_send 1 3 ''C'',
           Write_done no_error, Write_done no_error]
          (ProtobufStreamClient 4096)))
     = [new_entry (serialize example_codec) 1 2 ''A'',
        new_entry (serialize example_codec) 1 2 ''B'',
        new_entry (serialize example_codec) 1 3 ''C'']"
proof -
  let ?sts = "[Call_send 1 2 ''A'', Call_send 1 2 ''B'', Write_done no_error,
               Call_send 1 3 ''C'', Write_done no_error, Write_done no_error :: string action]"
  let ?s = "run example_codec ?sts (ProtobufStreamClient 4096)"
  have free: "write_error_free ?sts"
    by (simp add: failed_def no_error_def)
  have idle: "\<not> outbound_active ?s"
    by (simp add: ProtobufStreamClient_def send_def handle_write_def run_asio_def emit_def
        Let_def in_flight_def in_flight_step_def failed_def no_error_def)
  have s: "sent example_codec ?sts
             = [new_entry (serialize example_codec) 1 2 ''A'',
                new_entry (serialize example_codec) 1 2 ''B'',
                new_entry (serialize example_codec) 1 3 ''C'']"
    by simp
  note all = send_order [where c = example_codec and sts = ?sts and p = 4096]
  from all have "\<not> outbound_active ?s \<longrightarrow> writes_issued (trace ?s) = sent example_codec ?sts"
    by (rule conjunct2 [THEN conjunct2, THEN conjunct1])
  with idle have "writes_issued (trace ?s) = sent example_codec ?sts"
    by (rule rev_mp)
  from this s have w: "writes_issued (trace ?s)
     = [new_entry (serialize example_codec) 1 2 ''A'',
        new_entry (serialize example_codec) 1 2 ''B'',
        new_entry (serialize example_codec) 1 3 ''C'']"
    by (rule trans)
  from all have "write_error_free ?sts \<longrightarrow> outbound_active ?s = (in_flight (trace ?s) \<noteq> None)"
    by (rule conjunct2 [THEN conjunct2, THEN conjunct2])
  with free have "outbound_active ?s = (in_flight (trace ?s) \<noteq> None)"
    by (rule rev_mp)
  with idle have fl: "in_flight (trace ?s) = None"
    by blast
  from free idle fl w show ?thesis by (intro conjI)
qed

text \<open>
  C6 as stated, with the test on whether a write is in flight, fails after a write
  error: \<open>A\<close> is sent and its write fails, so no write is in flight; the flag is still
  set, and a \<open>send\<close> of \<open>B\<close> only appends \<open>B\<close> to the queue and issues no write.
\<close>

theorem send_after_write_error_counterexample:
  "failed (ErrorCode 32)
   \<and> in_flight (trace
       (run example_codec [Call_send 1 2 ''A'', Write_done (ErrorCode 32)]
          (ProtobufStreamClient 4096)))
     = None
   \<and> writes_issued (trace
       (run example_codec [Call_send 1 2 ''A'', Write_done (ErrorCode 32), Call_send 1 2 ''B'']
          (ProtobufStreamClient 4096)))
     = [new_entry (serialize example_codec) 1 2 ''A'']
   \<and> outbound_queue
       (run example_codec [Call_send 1 2 ''A'', Write_done (ErrorCode 32), Call_send 1 2 ''B'']
          (ProtobufStreamClient 4096))
     = [new_entry (serialize example_codec) 1 2 ''B'']
   \<and> in_flight (trace
       (run example_codec [Call_send 1 2 ''A'', Write_done (ErrorCode 32), Call_send 1 2 ''B'']
          (ProtobufStreamClient 4096)))
     = None"
  by (simp add: ProtobufStreamClient_def send_def handle_write_def run_asio_def emit_def
      Let_def in_flight_def in_flight_step_def failed_def)

text \<open>
  C7. On a successful completion \<open>handle_write\<close> deletes the written entry; then, if
  the queue is not empty, it removes the head and issues the write of it, and if the
  queue is empty it clears the in-flight flag.
\<close>

theorem handle_write_success:
  "\<not> failed error \<Longrightarrow>
     handle_write error entry s
       = (case outbound_queue s of
            [] \<Rightarrow> s\<lparr>outbound_active := False, trace := trace s @ [Delete_entry entry]\<rparr>
          | e # q \<Rightarrow> s\<lparr>outbound_queue := q,
                       trace := trace s @ [Delete_entry entry, Async_write e]\<rparr>)"
  by (simp add: handle_write_def emit_def Let_def split: list.splits)

theorem handle_write_success_witness:
  "\<not> failed no_error
   \<and> handle_write no_error (new_entry (serialize example_codec) 1 2 ''A'')
       (connected_client\<lparr>outbound_active := True,
          outbound_queue := [new_entry (serialize example_codec) 1 2 ''B'']\<rparr>)
     = connected_client
         \<lparr>outbound_active := True, outbound_queue := [],
          trace := trace connected_client
                   @ [Delete_entry (new_entry (serialize example_codec) 1 2 ''A''),
                      Async_write (new_entry (serialize example_codec) 1 2 ''B'')]\<rparr>
   \<and> handle_write no_error (new_entry (serialize example_codec) 1 2 ''B'')
       (connected_client\<lparr>outbound_active := True\<rparr>)
     = connected_client
         \<lparr>outbound_active := False,
          trace := trace connected_client
                   @ [Delete_entry (new_entry (serialize example_codec) 1 2 ''B'')]\<rparr>"
proof -
  have nf: "\<not> failed no_error"
    by (simp add: failed_def no_error_def)
  from handle_write_success
         [OF nf, of "new_entry (serialize example_codec) 1 2 ''A''"
            "connected_client\<lparr>outbound_active := True,
               outbound_queue := [new_entry (serialize example_codec) 1 2 ''B'']\<rparr>"]
       handle_write_success
         [OF nf, of "new_entry (serialize example_codec) 1 2 ''B''"
            "connected_client\<lparr>outbound_active := True\<rparr>"]
       nf
  show ?thesis by (simp add: connected_client_eq)
qed

text \<open>
  C9. Take any run of a new client up to a moment where a write is in flight, and let
  that write complete with an error. Whatever follows, the in-flight flag stays set,
  the queue keeps the entries it had and only gains the entries of later sends, and
  no further write is issued.
\<close>

theorem write_error_blocks_outbound:
  assumes "failed err"
    and "in_flight (trace (run c before (ProtobufStreamClient p))) \<noteq> None"
  shows "outbound_active (run c (before @ Write_done err # after) (ProtobufStreamClient p))
     \<and> outbound_queue (run c (before @ Write_done err # after) (ProtobufStreamClient p))
       = outbound_queue (run c before (ProtobufStreamClient p)) @ sent c after
     \<and> writes_issued (trace (run c (before @ Write_done err # after) (ProtobufStreamClient p)))
       = writes_issued (trace (run c before (ProtobufStreamClient p)))"
proof -
  let ?s = "run c before (ProtobufStreamClient p)"
  from assms(2) obtain e where e: "in_flight (trace ?s) = Some e"
    by blast
  from run_in_flight_active [OF init_in_flight_inv, where c = c and sts = before and p1 = p] assms(2)
  have act: "outbound_active ?s"
    by blast
  let ?s1 = "step c (Write_done err) ?s"
  have s1: "?s1 = ?s\<lparr>trace := trace ?s @ [Delete_entry e, Sig_disconnected err]\<rparr>"
    using e assms(1) by (simp add: handle_write_def emit_def Let_def)
  have act1: "outbound_active ?s1"
    unfolding s1 using act by simp
  have fl1: "in_flight (trace ?s1) = None"
    unfolding s1 by (simp add: in_flight_append in_flight_step_def)
  have w1: "writes_issued (trace ?s1) = writes_issued (trace ?s)"
    unfolding s1 by (simp add: writes_issued_append)
  have q1: "outbound_queue ?s1 = outbound_queue ?s"
    unfolding s1 by simp
  have split: "run c (before @ Write_done err # after) (ProtobufStreamClient p) = run c after ?s1"
    by (simp add: run_append)
  from run_wedged [OF act1 fl1, of c after] show ?thesis
    unfolding split w1 q1 by blast
qed

theorem write_error_blocks_outbound_witness:
  "failed (ErrorCode 32)
   \<and> in_flight (trace (run example_codec [Call_send 1 2 ''A'', Call_send 1 2 ''B'']
        (ProtobufStreamClient 4096))) \<noteq> None
   \<and> outbound_queue
       (run example_codec
          ([Call_send 1 2 ''A'', Call_send 1 2 ''B''] @ Write_done (ErrorCode 32)
             # [Call_disconnect, Call_async_connect ''refbox'' 4444, Resolve_done no_error [0],
                Connect_done no_error, Call_send 1 3 ''C'', Write_done no_error])
          (ProtobufStreamClient 4096))
     = [new_entry (serialize example_codec) 1 2 ''B'',
        new_entry (serialize example_codec) 1 3 ''C'']
   \<and> writes_issued (trace
       (run example_codec
          ([Call_send 1 2 ''A'', Call_send 1 2 ''B''] @ Write_done (ErrorCode 32)
             # [Call_disconnect, Call_async_connect ''refbox'' 4444, Resolve_done no_error [0],
                Connect_done no_error, Call_send 1 3 ''C'', Write_done no_error])
          (ProtobufStreamClient 4096)))
     = [new_entry (serialize example_codec) 1 2 ''A'']"
proof -
  have f: "failed (ErrorCode 32)"
    by (simp add: failed_def)
  have fl: "in_flight (trace (run example_codec [Call_send 1 2 ''A'', Call_send 1 2 ''B'']
        (ProtobufStreamClient 4096))) \<noteq> None"
    by (simp add: ProtobufStreamClient_def send_def run_asio_def emit_def Let_def
        in_flight_def in_flight_step_def)
  have q: "outbound_queue (run example_codec [Call_send 1 2 ''A'', Call_send 1 2 ''B'']
        (ProtobufStreamClient 4096)) = [new_entry (serialize example_codec) 1 2 ''B'']"
    by (simp add: ProtobufStreamClient_def send_def run_asio_def emit_def Let_def)
  have w: "writes_issued (trace (run example_codec [Call_send 1 2 ''A'', Call_send 1 2 ''B'']
        (ProtobufStreamClient 4096))) = [new_entry (serialize example_codec) 1 2 ''A'']"
    by (simp add: ProtobufStreamClient_def send_def run_asio_def emit_def Let_def)
  from write_error_blocks_outbound
         [OF f fl,
          of "[Call_disconnect, Call_async_connect ''refbox'' 4444, Resolve_done no_error [0],
               Connect_done no_error, Call_send 1 3 ''C'', Write_done no_error]"]
       f fl q w
  show ?thesis by simp
qed

end
